theory Spec2Isabelle
  imports Complex_Main "HOL-Library.Multiset" "HOL-Library.Word"
begin

section \<open>The movie recommender notebook\<close>

text \<open>
  The code verified here is the notebook
  \<^verbatim>\<open>notebooks/demo/nx_cugraph_jaccard_movie_recommender.ipynb\<close>. Each code cell is
  embedded as a function over the values the cell reads and writes. Node ids are
  kept polymorphic where the cell only compares them; similarity scores are
  rationals (the Jaccard coefficient is a quotient of two set sizes, so the
  not-a-number value never occurs and the order on scores is total).
\<close>

subsection \<open>Python's \<open>list.sort(key=..., reverse=True)\<close>\<close>

text \<open>
  \<^verbatim>\<open>list.sort\<close> is stable, also with \<^verbatim>\<open>reverse=True\<close>: the result is in
  non-increasing key order and elements with equal keys keep their original order.
  The model is the insertion sort with exactly that result: the list is consumed from
  the right, and an element is put in front of the first element whose key is not
  greater than its own.
\<close>

fun insort_reverse :: "('a \<Rightarrow> 'k::linorder) \<Rightarrow> 'a \<Rightarrow> 'a list \<Rightarrow> 'a list" where
  "insort_reverse key x [] = [x]"
| "insort_reverse key x (y # ys) =
     (if key y \<le> key x then x # y # ys else y # insort_reverse key x ys)"

definition sort_reverse :: "('a \<Rightarrow> 'k::linorder) \<Rightarrow> 'a list \<Rightarrow> 'a list" where
  "sort_reverse key xs = foldr (insort_reverse key) xs []"

subsection \<open>The ranking cell\<close>

text \<open>
  \<^verbatim>\<open>
  jacc_coeffs.sort(key=lambda t: t[2], reverse=True)
  movies_seen = list(good_user_movie_G.neighbors(user))
  recommendations = [mid for (_, mid, _) in jacc_coeffs
                     if mid not in movies_seen]
  \<close>
  A similarity tuple is \<open>(anchor, candidate, score)\<close>.
\<close>

type_synonym 'n sim = "'n \<times> 'n \<times> rat"

definition anchor :: "'n sim \<Rightarrow> 'n" where
  "anchor t = fst t"

definition candidate :: "'n sim \<Rightarrow> 'n" where
  "candidate t = fst (snd t)"

definition score :: "'n sim \<Rightarrow> rat" where
  "score t = snd (snd t)"

text \<open>The tuples that survive the filter, in output order, before the projection.\<close>

definition ranked :: "'n sim list \<Rightarrow> 'n list \<Rightarrow> 'n sim list" where
  "ranked L S = filter (\<lambda>t. candidate t \<notin> set S) (sort_reverse score L)"

definition recommend :: "'n sim list \<Rightarrow> 'n list \<Rightarrow> 'n list" where
  "recommend L S = map candidate (ranked L S)"

text \<open>
  The variables of the notebook session that the cell assigns. The sort is in place:
  after the cell, \<^verbatim>\<open>jacc_coeffs\<close> names the sorted list.
\<close>

record 'n session =
  jacc_coeffs :: "'n sim list"
  movies_seen :: "'n list"
  recommendations :: "'n list"

definition ranking_cell :: "'n list \<Rightarrow> 'n session \<Rightarrow> 'n session" where
  "ranking_cell neighbors st =
     (let st1 = st\<lparr>jacc_coeffs := sort_reverse score (jacc_coeffs st)\<rparr>;
          st2 = st1\<lparr>movies_seen := neighbors\<rparr>
      in st2\<lparr>recommendations :=
               map candidate
                 (filter (\<lambda>t. candidate t \<notin> set (movies_seen st2)) (jacc_coeffs st2))\<rparr>)"

subsection \<open>Errors and printed output\<close>

text \<open>
  An exception that no handler of the notebook catches ends the cell: it is the
  \<open>Inl\<close> value of the cell's result. What a cell prints is a list of lines.
\<close>

datatype py_error = KeyError int | ValueError | IndexError

text \<open>\<^verbatim>\<open>d[k]\<close> on a dictionary.\<close>

definition dict_getitem :: "(int \<rightharpoonup> 'v) \<Rightarrow> int \<Rightarrow> py_error + 'v" where
  "dict_getitem d k = (case d k of None \<Rightarrow> Inl (KeyError k) | Some v \<Rightarrow> Inr v)"

text \<open>The decimal text of an integer, as an f-string field prints it.\<close>

definition digit_char :: "nat \<Rightarrow> char" where
  "digit_char d = ''0123456789'' ! d"

function str_nat :: "nat \<Rightarrow> string" where
  "str_nat n =
     (if n < 10 then [digit_char n]
      else str_nat (n div 10) @ [digit_char (n mod 10)])"
  by pat_completeness auto
termination
  by (relation "measure (\<lambda>n. n)") auto

definition str_int :: "int \<Rightarrow> string" where
  "str_int i = (if i < 0 then CHR ''-'' # str_nat (nat (- i)) else str_nat (nat i))"

subsection \<open>The top-match part of the ranking cell\<close>

text \<open>
  \<^verbatim>\<open>
  if len(recommendations) > 0:
      mid = recommendations[0]
      print(f"User ID {user} might like {movie_id_name_map[mid]} "
            f"(movie ID: {mid})")
  \<close>
  There is no \<^verbatim>\<open>else\<close> branch.
\<close>

definition might_like :: "int \<Rightarrow> string \<Rightarrow> int \<Rightarrow> string" where
  "might_like user name mid =
     ''User ID '' @ str_int user @ '' might like '' @ name @
     '' (movie ID: '' @ str_int mid @ '')''"

definition top_match :: "int \<Rightarrow> (int \<rightharpoonup> string) \<Rightarrow> int list \<Rightarrow> py_error + string list" where
  "top_match user movie_id_name_map recs =
     (if length recs > 0 then
        (let mid = recs ! 0 in
         case dict_getitem movie_id_name_map mid of
           Inl e \<Rightarrow> Inl e
         | Inr name \<Rightarrow> Inr [might_like user name mid])
      else Inr [])"

subsection \<open>The pairs submitted to the similarity query\<close>

text \<open>
  \<^verbatim>\<open>
  ebunch = [(highest_rated_movie, n) for n in good_movie_ids[1:]
            if n != highest_rated_movie]
  \<close>
  and the same expression, with \<^verbatim>\<open>movie_id\<close> for the anchor, in
  \<^verbatim>\<open>print_similar_movies\<close>.
\<close>

definition ebunch :: "'n \<Rightarrow> 'n list \<Rightarrow> ('n \<times> 'n) list" where
  "ebunch highest_rated_movie good_movie_ids =
     map (\<lambda>n. (highest_rated_movie, n))
       (filter (\<lambda>n. n \<noteq> highest_rated_movie) (drop 1 good_movie_ids))"

definition print_similar_movies_ebunch :: "'n \<Rightarrow> 'n list \<Rightarrow> ('n \<times> 'n) list" where
  "print_similar_movies_ebunch movie_id good_movie_ids =
     map (\<lambda>n. (movie_id, n)) (filter (\<lambda>n. n \<noteq> movie_id) (drop 1 good_movie_ids))"

subsection \<open>The ratings table\<close>

text \<open>
  The table is read with the columns \<^verbatim>\<open>userId\<close> and \<^verbatim>\<open>movieId\<close> as
  \<^verbatim>\<open>int32\<close>, so they are 32-bit words read as two's complement, and adding to a
  column wraps around. \<^verbatim>\<open>rating\<close> holds the file's decimal ratings.
\<close>

type_synonym int32 = "32 word"

record rating_row =
  userId :: int32
  movieId :: int32
  rating :: rat

text \<open>
  \<^verbatim>\<open>Series.max()\<close>, then \<^verbatim>\<open>int(...)\<close>: the greatest value as a Python integer.
  On an empty column the maximum is not-a-number and \<^verbatim>\<open>int\<close> raises.
\<close>

fun column_max :: "int32 list \<Rightarrow> py_error + int" where
  "column_max [] = Inl ValueError"
| "column_max (x # xs) = Inr (foldl (\<lambda>a b. if a < sint b then sint b else a) (sint x) xs)"

text \<open>\<^verbatim>\<open>Series.unique()\<close>: the distinct values in order of first appearance.\<close>

fun unique_from :: "'a list \<Rightarrow> 'a list \<Rightarrow> 'a list" where
  "unique_from seen [] = []"
| "unique_from seen (x # xs) =
     (if x \<in> set seen then unique_from seen xs else x # unique_from (x # seen) xs)"

definition unique :: "'a list \<Rightarrow> 'a list" where
  "unique xs = unique_from [] xs"

text \<open>
  \<^verbatim>\<open>
  ratings_df["userId"][0]
  max_movie_id = int(ratings_df["movieId"].max())
  ratings_df["userId"] = ratings_df["userId"] + max_movie_id
  all_user_ids = ratings_df["userId"].unique()
  all_movie_ids = ratings_df["movieId"].unique()
  \<close>
  The first line reads the row labelled 0, which a table without rows does not have.
\<close>

definition offset_user_ids :: "rating_row list \<Rightarrow> py_error + rating_row list" where
  "offset_user_ids ratings_df =
     (case ratings_df of
        [] \<Rightarrow> Inl (KeyError 0)
      | _ # _ \<Rightarrow>
          (case column_max (map movieId ratings_df) of
             Inl e \<Rightarrow> Inl e
           | Inr max_movie_id \<Rightarrow>
               Inr (map (\<lambda>r. r\<lparr>userId := userId r + word_of_int max_movie_id\<rparr>) ratings_df)))"

definition all_user_ids :: "rating_row list \<Rightarrow> int32 list" where
  "all_user_ids ratings_df = unique (map userId ratings_df)"

definition all_movie_ids :: "rating_row list \<Rightarrow> int32 list" where
  "all_movie_ids ratings_df = unique (map movieId ratings_df)"

text \<open>
  \<^verbatim>\<open>
  good_ratings_df = ratings_df[ratings_df["rating"] >= 3]
  good_movie_ids = good_ratings_df["movieId"].unique()
  \<close>
\<close>

definition good_ratings_df :: "rating_row list \<Rightarrow> rating_row list" where
  "good_ratings_df ratings_df = filter (\<lambda>r. 3 \<le> rating r) ratings_df"

definition good_movie_ids :: "rating_row list \<Rightarrow> int32 list" where
  "good_movie_ids ratings_df = unique (map movieId (good_ratings_df ratings_df))"

subsection \<open>The movie titles\<close>

text \<open>
  A \<open>string\<close> stands for a Python \<^verbatim>\<open>str\<close> whose code points are below 256.
  \<^verbatim>\<open>s.split(",")\<close> cuts at every separator and always returns at least one field;
  \<^verbatim>\<open>",".join(fields)\<close> is its inverse.
\<close>

fun split_on :: "char \<Rightarrow> string \<Rightarrow> string list" where
  "split_on sep [] = [[]]"
| "split_on sep (c # cs) =
     (if c = sep then [] # split_on sep cs
      else (case split_on sep cs of [] \<Rightarrow> [[c]] | f # fs \<Rightarrow> (c # f) # fs))"

fun join :: "string \<Rightarrow> string list \<Rightarrow> string" where
  "join sep [] = []"
| "join sep [f] = f"
| "join sep (f # g # fs) = f @ sep @ join sep (g # fs)"

text \<open>
  \<^verbatim>\<open>int(s)\<close> on a string, in base 10: white space around the number is dropped
  (tab, line feed, vertical tab, form feed, carriage return, space, and the code
  points 0x85 and 0xA0), one sign may lead, the digits may be separated by single
  underscores, and more than 4300 digits are refused. \<open>None\<close> is \<^verbatim>\<open>ValueError\<close>.
\<close>

definition is_space :: "char \<Rightarrow> bool" where
  "is_space c = (of_char c \<in> {9, 10, 11, 12, 13, 32, 133, 160 :: nat})"

definition is_digit :: "char \<Rightarrow> bool" where
  "is_digit c = (48 \<le> (of_char c :: nat) \<and> (of_char c :: nat) \<le> 57)"

definition strip :: "string \<Rightarrow> string" where
  "strip s = rev (dropWhile is_space (rev (dropWhile is_space s)))"

fun py_digits :: "int \<Rightarrow> string \<Rightarrow> int option" where
  "py_digits acc [] = Some acc"
| "py_digits acc (c # cs) =
     (if is_digit c then py_digits (10 * acc + (of_char c - 48)) cs
      else if c = CHR ''_'' \<and> (case cs of [] \<Rightarrow> False | d # _ \<Rightarrow> is_digit d)
           then py_digits acc cs
      else None)"

definition py_unsigned :: "string \<Rightarrow> int option" where
  "py_unsigned s =
     (case s of
        [] \<Rightarrow> None
      | c # _ \<Rightarrow>
          if is_digit c \<and> length (filter is_digit s) \<le> 4300 then py_digits 0 s else None)"

definition py_int :: "string \<Rightarrow> int option" where
  "py_int s =
     (case strip s of
        [] \<Rightarrow> None
      | c # cs \<Rightarrow>
          if c = CHR ''-'' then map_option uminus (py_unsigned cs)
          else if c = CHR ''+'' then py_unsigned cs
          else py_unsigned (c # cs))"

text \<open>
  \<^verbatim>\<open>
  movie_id_name_map = {}
  with open(movies_csv) as f:
      for line in f.readlines():
          items = line.split(",")
          try:
              mid = int(items[0])
          except ValueError:
              continue
          mname = ",".join(items[1:-1])
          movie_id_name_map[mid] = mname
  \<close>
  \<open>movie_line\<close> is the body of the loop. \<^verbatim>\<open>items[0]\<close> raises on an empty list, and
  the handler catches \<^verbatim>\<open>ValueError\<close> only. The slice \<^verbatim>\<open>items[1:-1]\<close> stops one
  before the end and is empty when there is nothing between its bounds.
\<close>

definition movie_line :: "(int \<rightharpoonup> string) \<Rightarrow> string \<Rightarrow> py_error + (int \<rightharpoonup> string)" where
  "movie_line movie_id_name_map line =
     (let items = split_on CHR '','' line in
      case items of
        [] \<Rightarrow> Inl IndexError
      | item0 # _ \<Rightarrow>
          (case py_int item0 of
             None \<Rightarrow> Inr movie_id_name_map
           | Some mid \<Rightarrow>
               (let mname = join '','' (drop 1 (take (length items - 1) items))
                in Inr (movie_id_name_map(mid \<mapsto> mname)))))"

fun read_movies :: "(int \<rightharpoonup> string) \<Rightarrow> string list \<Rightarrow> py_error + (int \<rightharpoonup> string)" where
  "read_movies movie_id_name_map [] = Inr movie_id_name_map"
| "read_movies movie_id_name_map (line # lines) =
     (case movie_line movie_id_name_map line of
        Inl e \<Rightarrow> Inl e
      | Inr m \<Rightarrow> read_movies m lines)"

definition movie_id_name_map :: "string list \<Rightarrow> py_error + (int \<rightharpoonup> string)" where
  "movie_id_name_map lines = read_movies Map.empty lines"

section \<open>Properties of the sort\<close>

lemma set_insort_reverse: "set (insort_reverse key x xs) = insert x (set xs)"
  by (induction xs) auto

lemma mset_insort_reverse: "mset (insort_reverse key x xs) = add_mset x (mset xs)"
  by (induction xs) auto

lemma mset_sort_reverse: "mset (sort_reverse key xs) = mset xs"
  by (induction xs) (simp_all add: sort_reverse_def mset_insort_reverse)

lemma set_sort_reverse: "set (sort_reverse key xs) = set xs"
  using mset_sort_reverse [of key xs] by (metis set_mset_mset)

lemma sort_reverse_Cons:
  "sort_reverse key (x # xs) = insort_reverse key x (sort_reverse key xs)"
  by (simp add: sort_reverse_def)

lemma sort_reverse_Nil: "sort_reverse key [] = []"
  by (simp add: sort_reverse_def)

lemma ranking_cell_recommendations:
  "recommendations (ranking_cell S st) = recommend (jacc_coeffs st) S"
  by (simp add: ranking_cell_def recommend_def ranked_def Let_def)

lemma sorted_insort_reverse:
  "sorted_wrt (\<ge>) (map key xs) \<Longrightarrow> sorted_wrt (\<ge>) (map key (insort_reverse key x xs))"
  by (induction xs) (auto simp: set_insort_reverse)

lemma sorted_sort_reverse: "sorted_wrt (\<ge>) (map key (sort_reverse key xs))"
  by (induction xs) (simp_all add: sort_reverse_Nil sort_reverse_Cons sorted_insort_reverse)

lemma filter_key_insort_reverse:
  "filter (\<lambda>y. key y = k) (insort_reverse key x xs) = filter (\<lambda>y. key y = k) (x # xs)"
  by (induction xs) auto

lemma sort_reverse_stable:
  "filter (\<lambda>y. key y = k) (sort_reverse key xs) = filter (\<lambda>y. key y = k) xs"
  by (induction xs) (simp_all add: sort_reverse_Nil sort_reverse_Cons filter_key_insort_reverse)

lemma insort_reverse_sorted:
  "sorted_wrt (\<ge>) (map key (x # xs)) \<Longrightarrow> insort_reverse key x xs = x # xs"
  by (cases xs) auto

lemma sort_reverse_sorted:
  "sorted_wrt (\<ge>) (map key xs) \<Longrightarrow> sort_reverse key xs = xs"
  by (induction xs) (simp_all add: sort_reverse_Nil sort_reverse_Cons insort_reverse_sorted)

lemma sort_reverse_fixed_iff:
  "sort_reverse key xs = xs \<longleftrightarrow> sorted_wrt (\<ge>) (map key xs)"
  using sorted_sort_reverse [of key xs] sort_reverse_sorted [of key xs] by auto

text \<open>
  On scores the model is the library's stable sort on the negated key, the only list
  that is a stable rearrangement in non-increasing order.
\<close>

lemma insort_reverse_eq_insort_key:
  fixes key :: "'a \<Rightarrow> rat"
  shows "insort_reverse key x xs = insort_key (\<lambda>t. - key t) x xs"
  by (induction xs) simp_all

lemma sort_reverse_eq_sort_key:
  fixes key :: "'a \<Rightarrow> rat"
  shows "sort_reverse key xs = sort_key (\<lambda>t. - key t) xs"
  by (induction xs) (simp_all add: sort_reverse_Nil sort_reverse_Cons insort_reverse_eq_insort_key)

lemma sorted_ranked: "sorted_wrt (\<ge>) (map score (ranked L S))"
  unfolding ranked_def
  using sorted_sort_reverse [of score L] by (simp add: sorted_wrt_map sorted_wrt_filter)

section \<open>Properties of the ratings table\<close>

lemma set_unique_from: "set (unique_from seen xs) = set xs - set seen"
  by (induction xs arbitrary: seen) auto

lemma set_unique: "set (unique xs) = set xs"
  by (simp add: unique_def set_unique_from)

lemma positive_sint_uint:
  fixes w :: int32
  assumes "0 < sint w"
  shows "uint w = sint w"
proof -
  have "sint w < 2 ^ 31" using sint_lt [of w] by simp
  then have "take_bit 32 (sint w) = sint w"
    using assms by (simp add: take_bit_int_eq_self)
  then show ?thesis using uint_sint [of w] by simp
qed

lemma foldl_max_ge_start:
  "a \<le> foldl (\<lambda>a b. if a < sint b then sint b else a) a (xs :: int32 list)"
proof (induction xs arbitrary: a)
  case Nil
  show ?case by simp
next
  case (Cons x xs)
  show ?case
    using Cons.IH [of "if a < sint x then sint x else a"] by (simp split: if_splits)
qed

lemma foldl_max_ge_elem:
  "x \<in> set xs \<Longrightarrow> sint x \<le> foldl (\<lambda>a b. if a < sint b then sint b else a) a (xs :: int32 list)"
proof (induction xs arbitrary: a)
  case Nil
  then show ?case by simp
next
  case (Cons y ys)
  show ?case
  proof (cases "x = y")
    case True
    then show ?thesis
      using foldl_max_ge_start [of "if a < sint y then sint y else a" ys]
      by (simp split: if_splits)
  next
    case False
    with Cons.prems have "x \<in> set ys" by simp
    then show ?thesis using Cons.IH by simp
  qed
qed

lemma foldl_max_is_elem:
  "foldl (\<lambda>a b. if a < sint b then sint b else a) a (xs :: int32 list) \<in> insert a (sint ` set xs)"
  by (induction xs arbitrary: a) (auto split: if_splits)

lemma column_max_Inr:
  assumes "column_max xs = Inr M"
  shows "(\<forall>x \<in> set xs. sint x \<le> M) \<and> (\<exists>x \<in> set xs. M = sint x)"
proof (cases xs)
  case Nil
  with assms show ?thesis by simp
next
  case (Cons y ys)
  with assms have M: "M = foldl (\<lambda>a b. if a < sint b then sint b else a) (sint y) ys"
    by simp
  have "\<forall>x \<in> set xs. sint x \<le> M"
    using foldl_max_ge_start [of "sint y" ys] foldl_max_ge_elem [of _ ys "sint y"]
    by (auto simp: Cons M)
  moreover have "\<exists>x \<in> set xs. M = sint x"
    using foldl_max_is_elem [of "sint y" ys] by (auto simp: Cons M)
  ultimately show ?thesis by blast
qed

lemma column_max_nonempty: "xs \<noteq> [] \<Longrightarrow> \<exists>M. column_max xs = Inr M"
  by (cases xs) simp_all

lemma offset_misses_movies:
  fixes u x0 m :: int32
  assumes "0 < sint u" and "0 < sint x0" and "0 < sint m" and "sint m \<le> sint x0"
  shows "u + word_of_int (sint x0) \<noteq> m"
proof
  assume eq: "u + word_of_int (sint x0) = m"
  have w: "word_of_int (sint x0) = x0" by simp
  have uu: "uint u = sint u" and ux: "uint x0 = sint x0" and um: "uint m = sint m"
    using assms by (simp_all add: positive_sint_uint)
  have "sint u < 2 ^ 31" and "sint x0 < 2 ^ 31"
    using sint_lt [of u] sint_lt [of x0] by simp_all
  then have "uint u + uint x0 < 2 ^ 32" using uu ux by simp
  then have "uint (u + x0) = uint u + uint x0"
    using uint_add_lem [of u x0] by simp
  then have "uint m = sint u + sint x0" using eq w uu ux by simp
  then show False using um assms by simp
qed

section \<open>Properties of the title file reader\<close>

lemma split_on_nonempty: "split_on sep s \<noteq> []"
  by (induction s) (auto split: list.splits)

lemma split_on_no_sep: "f \<in> set (split_on sep s) \<Longrightarrow> sep \<notin> set f"
  by (induction s arbitrary: f) (auto split: if_splits list.splits)

lemma join_Cons: "fs \<noteq> [] \<Longrightarrow> join sep (f # fs) = f @ sep @ join sep fs"
  by (cases fs) simp_all

lemma join_split_on: "join [sep] (split_on sep s) = s"
proof (induction s)
  case Nil
  show ?case by simp
next
  case (Cons c cs)
  obtain f fs where sp: "split_on sep cs = f # fs"
    using split_on_nonempty [of sep cs] by (cases "split_on sep cs") auto
  show ?case
  proof (cases "c = sep")
    case True
    then show ?thesis using Cons.IH by (simp add: join_Cons split_on_nonempty)
  next
    case False
    show ?thesis
    proof (cases fs)
      case Nil
      with False sp Cons.IH show ?thesis by simp
    next
      case (Cons g gs)
      with False sp Cons.IH show ?thesis by simp
    qed
  qed
qed

lemma slice_1_minus_1:
  "drop 1 (take (length xs - 1) xs) = map ((!) xs) [1..<length xs - 1]"
  by (rule nth_equalityI) auto

lemma movie_line_skip:
  assumes "split_on CHR '','' line = f0 # fs" and "py_int f0 = None"
  shows "movie_line m line = Inr m"
  using assms by (simp add: movie_line_def)

lemma movie_line_store:
  assumes "split_on CHR '','' line = f0 # fs" and "py_int f0 = Some mid"
  shows "movie_line m line = Inr (m(mid \<mapsto> join '','' (drop 1 (take (length fs) (f0 # fs)))))"
  using assms by (simp add: movie_line_def)

lemma movie_line_no_error: "\<exists>m'. movie_line m line = Inr m'"
proof -
  obtain f0 fs where "split_on CHR '','' line = f0 # fs"
    using split_on_nonempty [of "CHR '',''" line] by (cases "split_on CHR '','' line") auto
  then show ?thesis
    by (cases "py_int f0") (simp_all add: movie_line_def)
qed

lemma read_movies_no_error: "\<exists>m'. read_movies m lines = Inr m'"
proof (induction lines arbitrary: m)
  case Nil
  show ?case by simp
next
  case (Cons line lines)
  obtain m1 where "movie_line m line = Inr m1"
    using movie_line_no_error by blast
  then show ?case using Cons.IH [of m1] by simp
qed

lemma read_movies_append:
  "read_movies m (xs @ ys) =
     (case read_movies m xs of Inl e \<Rightarrow> Inl e | Inr m1 \<Rightarrow> read_movies m1 ys)"
  by (induction xs arbitrary: m) (auto split: sum.splits)

section \<open>The claims\<close>

text \<open>
  C1. For every similarity list \<open>L\<close> and every seen-set \<open>S\<close> (the neighbours of the
  reference user), the recommendation list that the ranking cell produces contains no
  candidate id that is an element of \<open>S\<close>.
\<close>

theorem recommendations_exclude_seen:
  "set (recommendations (ranking_cell S (st\<lparr>jacc_coeffs := L\<rparr>))) \<inter> set S = {}"
  by (auto simp: ranking_cell_def Let_def)

text \<open>
  C2. For every similarity list \<open>L\<close> that holds at least two distinct scores, the
  ranking output is ordered by score, non-increasing: for two output positions
  \<open>i < j\<close>, the score of the tuple at position \<open>i\<close> is greater than or equal to the
  score of the tuple at position \<open>j\<close>. The output is the list of candidates of
  \<open>ranked L S\<close>, position for position.
\<close>

theorem ranking_non_increasing:
  assumes "\<exists>a \<in> set L. \<exists>b \<in> set L. score a \<noteq> score b"
  shows "recommendations (ranking_cell S (st\<lparr>jacc_coeffs := L\<rparr>)) = map candidate (ranked L S)
    \<and> (\<forall>i j. i < j \<and> j < length (ranked L S)
          \<longrightarrow> score (ranked L S ! j) \<le> score (ranked L S ! i))"
proof -
  have "sorted_wrt (\<ge>) (map score (ranked L S))" by (rule sorted_ranked)
  then have "\<forall>i j. i < j \<and> j < length (ranked L S)
          \<longrightarrow> score (ranked L S ! j) \<le> score (ranked L S ! i)"
    by (auto simp: sorted_wrt_iff_nth_less)
  then show ?thesis
    by (simp add: ranking_cell_recommendations recommend_def)
qed

theorem ranking_non_increasing_witness:
  "score (1::int, 2::int, 1/2) \<noteq> score (1::int, 3::int, 9/10)
   \<and> recommendations (ranking_cell [4]
        \<lparr>jacc_coeffs = [(1::int, 2::int, 1/2), (1, 3, 9/10), (1, 4, 7/10)],
         movies_seen = [], recommendations = []\<rparr>) = [3, 2]
   \<and> ranked [(1::int, 2::int, 1/2), (1, 3, 9/10), (1, 4, 7/10)] [4] = [(1, 3, 9/10), (1, 2, 1/2)]
   \<and> score (ranked [(1::int, 2::int, 1/2), (1, 3, 9/10), (1, 4, 7/10)] [4] ! 1)
       \<le> score (ranked [(1::int, 2::int, 1/2), (1, 3, 9/10), (1, 4, 7/10)] [4] ! 0)"
proof -
  let ?L = "[(1::int, 2::int, 1/2), (1, 3, 9/10), (1, 4, 7/10)]"
  let ?st = "\<lparr>jacc_coeffs = ?L, movies_seen = [], recommendations = []\<rparr>"
  have d: "score (1::int, 2::int, 1/2) \<noteq> score (1::int, 3::int, 9/10)"
    by (simp add: score_def)
  then have h: "\<exists>a \<in> set ?L. \<exists>b \<in> set ?L. score a \<noteq> score b"
    by (intro bexI [of _ "(1, 2, 1/2)"] bexI [of _ "(1, 3, 9/10)"]) simp_all
  have r: "ranked ?L [4] = [(1, 3, 9/10), (1, 2, 1/2)]"
    by (simp add: ranked_def sort_reverse_def score_def candidate_def)
  note t = ranking_non_increasing [OF h, of "[4]" ?st]
  from t have c: "recommendations (ranking_cell [4] ?st) = [3, 2]"
    by (simp add: r candidate_def)
  from t have "(0::nat) < 1 \<and> 1 < length (ranked ?L [4])
      \<longrightarrow> score (ranked ?L [4] ! 1) \<le> score (ranked ?L [4] ! 0)"
    by blast
  then have o: "score (ranked ?L [4] ! 1) \<le> score (ranked ?L [4] ! 0)"
    by (simp add: r)
  from d c r o show ?thesis by blast
qed

text \<open>
  C3. The ranking sort is stable: for every similarity list \<open>L\<close> and every score,
  the tuples of that score appear in the ranking output in the same relative order as
  in \<open>L\<close>; and \<open>[(A,"x",0.9), (A,"y",0.5), (A,"z",0.9)]\<close> with the empty seen-set
  gives \<open>["x","z","y"]\<close>.
\<close>

theorem ranking_stable:
  "(\<forall>v. filter (\<lambda>t. score t = v) (ranked L S)
        = filter (\<lambda>t. score t = v) (filter (\<lambda>t. candidate t \<notin> set S) L))
   \<and> recommend [(A, ''x'', 9/10), (A, ''y'', 1/2), (A, ''z'', 9/10)] [] = [''x'', ''z'', ''y'']"
proof -
  have "filter (\<lambda>t. score t = v) (ranked L S)
        = filter (\<lambda>t. score t = v) (filter (\<lambda>t. candidate t \<notin> set S) L)" for v
  proof -
    have "filter (\<lambda>t. score t = v) (ranked L S)
          = filter (\<lambda>t. candidate t \<notin> set S) (filter (\<lambda>t. score t = v) (sort_reverse score L))"
      by (simp add: ranked_def conj_commute)
    also have "\<dots> = filter (\<lambda>t. candidate t \<notin> set S) (filter (\<lambda>t. score t = v) L)"
      by (simp only: sort_reverse_stable)
    finally show ?thesis by (simp add: conj_commute)
  qed
  moreover have "recommend [(A, ''x'', 9/10), (A, ''y'', 1/2), (A, ''z'', 9/10)] [] = [''x'', ''z'', ''y'']"
    by (simp add: recommend_def ranked_def sort_reverse_def score_def candidate_def)
  ultimately show ?thesis by blast
qed

text \<open>
  C4 (as amended). Top-match selection: if the ranked sequence is non-empty, its first
  element is reported, by one printed line that names it, when it is a key of the name
  mapping, and the lookup's \<^verbatim>\<open>KeyError\<close> ends the cell otherwise. If the sequence is
  empty, the cell prints nothing and raises nothing: no "no recommendation available"
  condition is signalled.
\<close>

theorem top_match_reports_first:
  "top_match user m [] = Inr []
   \<and> top_match user m (mid # rest)
       = (case m mid of None \<Rightarrow> Inl (KeyError mid) | Some name \<Rightarrow> Inr [might_like user name mid])
   \<and> top_match 289308 [2687 \<mapsto> ''Tarzan (1999)''] [2687, 1566]
       = Inr [''User ID 289308 might like Tarzan (1999) (movie ID: 2687)'']"
proof -
  have a: "top_match user m [] = Inr []"
    by (simp add: top_match_def)
  have b: "top_match user m (mid # rest)
       = (case m mid of None \<Rightarrow> Inl (KeyError mid) | Some name \<Rightarrow> Inr [might_like user name mid])"
    by (simp add: top_match_def dict_getitem_def split: option.split)
  have c: "top_match 289308 [2687 \<mapsto> ''Tarzan (1999)''] [2687, 1566]
       = Inr [''User ID 289308 might like Tarzan (1999) (movie ID: 2687)'']"
    by (simp add: top_match_def dict_getitem_def might_like_def str_int_def digit_char_def)
  from a b c show ?thesis by blast
qed

text \<open>
  The claim as the specification has it fails on the empty sequence: the cell's result
  is the empty output, with no exception.
\<close>

theorem top_match_empty_is_silent:
  "top_match 289308 [2687 \<mapsto> ''Tarzan (1999)''] [] = Inr []"
  by (simp add: top_match_def)

text \<open>
  C5 (as amended). The ranking step is a deterministic function of the similarity list
  and the seen-set, but it is not free of side effects: it sorts the similarity list
  in place. After the step the list holds the same tuples in stable non-increasing
  score order, and it is unchanged exactly when it already was in non-increasing score
  order. The step assigns \<^verbatim>\<open>movies_seen\<close> and \<^verbatim>\<open>recommendations\<close>, leaves every
  other variable alone, and running it again changes nothing more.
\<close>

theorem ranking_cell_effect:
  "jacc_coeffs (ranking_cell S st) = sort_reverse score (jacc_coeffs st)
   \<and> mset (jacc_coeffs (ranking_cell S st)) = mset (jacc_coeffs st)
   \<and> (jacc_coeffs (ranking_cell S st) = jacc_coeffs st
        \<longleftrightarrow> sorted_wrt (\<ge>) (map score (jacc_coeffs st)))
   \<and> movies_seen (ranking_cell S st) = S
   \<and> recommendations (ranking_cell S st) = recommend (jacc_coeffs st) S
   \<and> session.more (ranking_cell S st) = session.more st
   \<and> ranking_cell S (ranking_cell S st) = ranking_cell S st"
proof -
  have a: "jacc_coeffs (ranking_cell S st) = sort_reverse score (jacc_coeffs st)"
    by (simp add: ranking_cell_def Let_def)
  have b: "mset (jacc_coeffs (ranking_cell S st)) = mset (jacc_coeffs st)"
    by (simp add: a mset_sort_reverse)
  have c: "jacc_coeffs (ranking_cell S st) = jacc_coeffs st
        \<longleftrightarrow> sorted_wrt (\<ge>) (map score (jacc_coeffs st))"
    by (simp add: a sort_reverse_fixed_iff)
  have d: "movies_seen (ranking_cell S st) = S"
    by (simp add: ranking_cell_def Let_def)
  have e: "recommendations (ranking_cell S st) = recommend (jacc_coeffs st) S"
    by (rule ranking_cell_recommendations)
  have f: "session.more (ranking_cell S st) = session.more st"
    by (simp add: ranking_cell_def Let_def)
  have "sort_reverse score (sort_reverse score (jacc_coeffs st)) = sort_reverse score (jacc_coeffs st)"
    by (rule sort_reverse_sorted) (rule sorted_sort_reverse)
  then have g: "ranking_cell S (ranking_cell S st) = ranking_cell S st"
    by (simp add: ranking_cell_def Let_def)
  from a b c d e f g show ?thesis by blast
qed

text \<open>
  The claim as the specification has it fails on a list that is not yet in order: after
  the step \<^verbatim>\<open>jacc_coeffs\<close> is another list.
\<close>

theorem ranking_cell_changes_input:
  "jacc_coeffs (ranking_cell []
      \<lparr>jacc_coeffs = [(1::int, 2::int, 1/2), (1, 3, 9/10)], movies_seen = [], recommendations = []\<rparr>)
     = [(1, 3, 9/10), (1, 2, 1/2)]
   \<and> jacc_coeffs (ranking_cell []
      \<lparr>jacc_coeffs = [(1::int, 2::int, 1/2), (1, 3, 9/10)], movies_seen = [], recommendations = []\<rparr>)
     \<noteq> [(1, 2, 1/2), (1, 3, 9/10)]"
  by (simp add: ranking_cell_def Let_def sort_reverse_def score_def)

text \<open>
  C6. For every chosen anchor movie, the pairs submitted to the similarity query
  contain every good-movie id other than the anchor. The code skips the first entry of
  \<^verbatim>\<open>good_movie_ids\<close>: with the good movies 1, 2, 3 and the anchor 2, the pair for
  movie 1 is missing, in the cell and in \<^verbatim>\<open>print_similar_movies\<close> alike.
\<close>

theorem ebunch_skips_first_movie:
  "good_movie_ids [\<lparr>userId = 4, movieId = 1, rating = 5\<rparr>, \<lparr>userId = 4, movieId = 2, rating = 4\<rparr>,
                   \<lparr>userId = 4, movieId = 3, rating = 7/2\<rparr>] = [1, 2, 3]
   \<and> ebunch 2 [1, 2, 3 :: int32] = [(2, 3)]
   \<and> print_similar_movies_ebunch 2 [1, 2, 3 :: int32] = [(2, 3)]
   \<and> (2, 1) \<notin> set (ebunch 2 [1, 2, 3 :: int32])"
  by (simp add: good_movie_ids_def good_ratings_df_def unique_def ebunch_def
      print_similar_movies_ebunch_def)

text \<open>
  C8. Name lookup raises exactly when the key is absent: a key of the mapping returns
  its stored label (1907 returns "Mulan (1998)"), and any other id raises
  \<^verbatim>\<open>KeyError\<close>, which the top-match code does not catch.
\<close>

theorem name_lookup_raises_iff_absent:
  "(dict_getitem d k = Inr v \<longleftrightarrow> d k = Some v)
   \<and> (dict_getitem d k = Inl (KeyError k) \<longleftrightarrow> k \<notin> dom d)
   \<and> (isl (dict_getitem d k) \<longleftrightarrow> k \<notin> dom d)
   \<and> (top_match user d (k # rest) = Inl (KeyError k) \<longleftrightarrow> k \<notin> dom d)
   \<and> dict_getitem [1907 \<mapsto> ''Mulan (1998)''] 1907 = Inr ''Mulan (1998)''
   \<and> dict_getitem [1907 \<mapsto> ''Mulan (1998)''] 1566 = Inl (KeyError 1566)"
  by (auto simp: dict_getitem_def top_match_def split: option.splits)

text \<open>
  C7. For every ratings table in which all raw user ids and movie ids are positive,
  after the maximum movie id is added to every user id, the set of offset user ids and
  the set of movie ids are disjoint. The addition is the 32-bit one: a sum beyond the
  largest \<^verbatim>\<open>int32\<close> wraps to a negative id, which is no movie id either. The cell
  succeeds on every table with at least one row (it raises on the table without rows),
  and leaves the movie ids as they were.
\<close>

theorem offset_ids_disjoint:
  assumes "\<forall>r \<in> set ratings_df. 0 < sint (userId r) \<and> 0 < sint (movieId r)"
  shows "(ratings_df \<noteq> [] \<longrightarrow> (\<exists>df. offset_user_ids ratings_df = Inr df))
    \<and> (\<forall>df. offset_user_ids ratings_df = Inr df \<longrightarrow>
          map movieId df = map movieId ratings_df
          \<and> set (all_user_ids df) \<inter> set (all_movie_ids df) = {})"
proof (intro conjI allI impI)
  assume "ratings_df \<noteq> []"
  then have "map movieId ratings_df \<noteq> []" by simp
  then obtain M where "column_max (map movieId ratings_df) = Inr M"
    using column_max_nonempty by blast
  with \<open>ratings_df \<noteq> []\<close> show "\<exists>df. offset_user_ids ratings_df = Inr df"
    by (simp add: offset_user_ids_def split: list.split)
next
  fix df
  assume ok: "offset_user_ids ratings_df = Inr df"
  then obtain M where M: "column_max (map movieId ratings_df) = Inr M"
    and df: "df = map (\<lambda>r. r\<lparr>userId := userId r + word_of_int M\<rparr>) ratings_df"
    by (auto simp: offset_user_ids_def split: sum.splits list.splits)
  show "map movieId df = map movieId ratings_df"
    by (simp add: df)
  from column_max_Inr [OF M] obtain r0 where r0: "r0 \<in> set ratings_df" "M = sint (movieId r0)"
    and le: "\<forall>r \<in> set ratings_df. sint (movieId r) \<le> M"
    by auto
  have "userId a + word_of_int M \<noteq> movieId b"
    if "a \<in> set ratings_df" "b \<in> set ratings_df" for a b
    using offset_misses_movies [of "userId a" "movieId r0" "movieId b"] assms r0 le that
    by auto
  then show "set (all_user_ids df) \<inter> set (all_movie_ids df) = {}"
    by (auto simp: all_user_ids_def all_movie_ids_def set_unique df)
qed

theorem offset_ids_disjoint_witness:
  "offset_user_ids [\<lparr>userId = 1, movieId = 5, rating = 3\<rparr>,
                    \<lparr>userId = 2147483647, movieId = 2, rating = 4\<rparr>]
     = Inr [\<lparr>userId = 6, movieId = 5, rating = 3\<rparr>,
            \<lparr>userId = - 2147483644, movieId = 2, rating = 4\<rparr>]
   \<and> set (all_user_ids [\<lparr>userId = 6, movieId = 5, rating = 3\<rparr>,
            \<lparr>userId = - 2147483644, movieId = 2, rating = 4\<rparr>])
     \<inter> set (all_movie_ids [\<lparr>userId = 6, movieId = 5, rating = 3\<rparr>,
            \<lparr>userId = - 2147483644, movieId = 2, rating = 4\<rparr>]) = {}"
proof -
  let ?df = "[\<lparr>userId = 1, movieId = 5, rating = 3\<rparr>,
              \<lparr>userId = 2147483647, movieId = 2, rating = 4\<rparr>]"
  let ?df' = "[\<lparr>userId = 6, movieId = 5, rating = 3\<rparr>,
              \<lparr>userId = - 2147483644, movieId = 2, rating = 4\<rparr>]"
  have h: "\<forall>r \<in> set ?df. 0 < sint (userId r) \<and> 0 < sint (movieId r)"
    by simp
  have e: "offset_user_ids ?df = Inr ?df'"
    by (simp add: offset_user_ids_def)
  from offset_ids_disjoint [OF h] e
  have "set (all_user_ids ?df') \<inter> set (all_movie_ids ?df') = {}"
    by blast
  with e show ?thesis by blast
qed

text \<open>
  C9. Every line of the movie file whose leading comma-separated field does not parse
  as an integer is skipped silently: it adds no entry to the name mapping, it raises no
  error, and the loop goes on with the next line, so that the file with the line and
  the file without it give the same mapping.
\<close>

theorem malformed_line_skipped:
  assumes "split_on CHR '','' line = f0 # fs" and "py_int f0 = None"
  shows "movie_line m line = Inr m
    \<and> read_movies m (line # rest) = read_movies m rest
    \<and> movie_id_name_map (before @ line # rest) = movie_id_name_map (before @ rest)
    \<and> (\<exists>m'. movie_id_name_map (before @ line # rest) = Inr m')"
proof -
  have a: "movie_line m line = Inr m" for m
    using assms by (rule movie_line_skip)
  have b: "read_movies m (line # rest) = read_movies m rest" for m
    by (simp add: a)
  have c: "movie_id_name_map (before @ line # rest) = movie_id_name_map (before @ rest)"
    by (simp add: movie_id_name_map_def read_movies_append b del: read_movies.simps
        cong: sum.case_cong)
  have d: "\<exists>m'. movie_id_name_map (before @ line # rest) = Inr m'"
    unfolding movie_id_name_map_def by (rule read_movies_no_error)
  from a b c d show ?thesis by blast
qed

theorem malformed_line_skipped_witness:
  "split_on CHR '','' ''movieId,title,genres\<newline>'' = [''movieId'', ''title'', ''genres\<newline>'']
   \<and> py_int ''movieId'' = None
   \<and> movie_line [5 \<mapsto> ''x''] ''movieId,title,genres\<newline>'' = Inr [5 \<mapsto> ''x'']
   \<and> movie_id_name_map [''movieId,title,genres\<newline>'', ''1907,Mulan (1998),Animation\<newline>'']
       = movie_id_name_map [''1907,Mulan (1998),Animation\<newline>'']"
proof -
  have s: "split_on CHR '','' ''movieId,title,genres\<newline>'' = [''movieId'', ''title'', ''genres\<newline>'']"
    by simp
  have p: "py_int ''movieId'' = None"
    by (simp add: py_int_def py_unsigned_def strip_def is_space_def is_digit_def)
  note t = malformed_line_skipped [OF s p, of "[5 \<mapsto> ''x'']" "[''1907,Mulan (1998),Animation\<newline>'']" "[]"]
  from t have a: "movie_line [5 \<mapsto> ''x''] ''movieId,title,genres\<newline>'' = Inr [5 \<mapsto> ''x'']"
    by blast
  from t have b: "movie_id_name_map ([] @ [''movieId,title,genres\<newline>'', ''1907,Mulan (1998),Animation\<newline>''])
       = movie_id_name_map ([] @ [''1907,Mulan (1998),Animation\<newline>''])"
    by blast
  from s p a b show ?thesis by (simp only: append_Nil) 
qed

text \<open>
  C10. Label construction: for a line whose comma-separated fields are
  \<open>f0, ..., f(k-1)\<close> with \<open>k \<ge> 2\<close> and \<open>f0\<close> an integer, the mapping stores under
  \<open>int(f0)\<close> exactly the fields \<open>f1\<close> to \<open>f(k-2)\<close> joined with commas: the last field
  is dropped, the quotes around a title with a comma stay in the label, for \<open>k = 2\<close>
  the label is empty, and the line overwrites whatever earlier lines stored under the
  same id.
\<close>

theorem label_construction:
  assumes "split_on CHR '','' line = items" and "2 \<le> length items"
    and "py_int (items ! 0) = Some mid"
  shows \<open>movie_line m line
      = Inr (m(mid \<mapsto> join '','' (map ((!) items) [1..<length items - 1])))
    \<and> (length items = 2 \<longrightarrow> movie_line m line = Inr (m(mid \<mapsto> [])))
    \<and> (\<exists>m'. read_movies m (earlier @ [line]) = Inr m'
          \<and> m' mid = Some (join '','' (map ((!) items) [1..<length items - 1])))
    \<and> movie_line Map.empty ''11,"American President, The (1995)",Comedy|Drama|Romance\<newline>''
        = Inr [11 \<mapsto> ''"American President, The (1995)"'']\<close>
proof -
  let ?label = "join '','' (map ((!) items) [1..<length items - 1])"
  obtain f0 fs where f: "items = f0 # fs"
    using assms(2) by (cases items) auto
  have a: "movie_line m line = Inr (m(mid \<mapsto> ?label))" for m
    using assms(1,3) slice_1_minus_1 [of items]
    by (simp add: movie_line_def f del: upt_Suc)
  have b: "length items = 2 \<longrightarrow> movie_line m line = Inr (m(mid \<mapsto> []))"
    by (simp add: a)
  obtain m1 where m1: "read_movies m earlier = Inr m1"
    using read_movies_no_error by blast
  have "read_movies m (earlier @ [line]) = Inr (m1(mid \<mapsto> ?label))"
    by (simp add: read_movies_append m1 a)
  then have c: "\<exists>m'. read_movies m (earlier @ [line]) = Inr m' \<and> m' mid = Some ?label"
    by simp
  have d: \<open>movie_line Map.empty ''11,"American President, The (1995)",Comedy|Drama|Romance\<newline>''
        = Inr [11 \<mapsto> ''"American President, The (1995)"'']\<close>
    by (simp add: movie_line_def py_int_def py_unsigned_def strip_def is_space_def is_digit_def)
  from a b c d show ?thesis by blast
qed

theorem label_construction_witness:
  "split_on CHR '','' ''1907,Mulan (1998),Animation|Children\<newline>''
     = [''1907'', ''Mulan (1998)'', ''Animation|Children\<newline>'']
   \<and> py_int ''1907'' = Some 1907
   \<and> movie_line Map.empty ''1907,Mulan (1998),Animation|Children\<newline>''
       = Inr [1907 \<mapsto> ''Mulan (1998)'']
   \<and> (\<exists>m'. read_movies Map.empty
            ([''1907,Old title,Drama\<newline>''] @ [''1907,Mulan (1998),Animation|Children\<newline>''])
          = Inr m' \<and> m' 1907 = Some ''Mulan (1998)'')"
proof -
  let ?line = "''1907,Mulan (1998),Animation|Children\<newline>''"
  let ?items = "[''1907'', ''Mulan (1998)'', ''Animation|Children\<newline>'']"
  have s: "split_on CHR '','' ?line = ?items"
    by simp
  have k: "2 \<le> length ?items"
    by simp
  have p: "py_int ''1907'' = Some 1907"
    by (simp add: py_int_def py_unsigned_def strip_def is_space_def is_digit_def)
  then have p0: "py_int (?items ! 0) = Some 1907"
    by simp
  have l: "join '','' (map ((!) ?items) [1..<length ?items - 1]) = ''Mulan (1998)''"
    by simp
  note t = label_construction [OF s k p0, of Map.empty "[''1907,Old title,Drama\<newline>'']"]
  from t have a: "movie_line Map.empty ?line = Inr [1907 \<mapsto> ''Mulan (1998)'']"
    by (simp only: l)
  from t have b: "\<exists>m'. read_movies Map.empty ([''1907,Old title,Drama\<newline>''] @ [?line]) = Inr m'
      \<and> m' 1907 = Some ''Mulan (1998)''"
    by (simp only: l)
  from s p a b show ?thesis by blast
qed

end
